theory Spec2Isabelle
  imports Complex_Main
begin

section \<open>The hourly calendar\<close>

text \<open>
  \<open>LoadCurveGenerator.__init__\<close> builds
  \<^verbatim>\<open>pd.date_range(start=f"{year}-01-01", end=f"{year}-12-31 23:00", freq="h")\<close>:
  the naive (time-zone free) timestamps from the start to the end, both included, one hour
  apart. A timestamp is the number of hours since 0001-01-01 00:00 of the proleptic
  Gregorian calendar; \<open>timestamp_of y m d h\<close> is the timestamp of a civil date and hour,
  through the day count of a date (days before the year, days before the month, day of the
  month). \<open>hour\<close> and \<open>dayofweek\<close> are the two pandas accessors the generator reads
  (Monday is 0, Sunday 6; 0001-01-01 is a Monday).
\<close>

datatype timestamp = Hours int

fun hours_of :: "timestamp \<Rightarrow> int" where
  "hours_of (Hours n) = n"

definition is_leap :: "int \<Rightarrow> bool" where
  "is_leap y = (if y mod 400 = 0 then True else if y mod 100 = 0 then False else y mod 4 = 0)"

definition month_lengths :: "int \<Rightarrow> nat list" where
  "month_lengths y = [31, if is_leap y then 29 else 28, 31, 30, 31, 30, 31, 31, 30, 31, 30, 31]"

definition days_before_year :: "int \<Rightarrow> int" where
  "days_before_year y = 365 * (y - 1) + (y - 1) div 4 - (y - 1) div 100 + (y - 1) div 400"

definition days_before_month :: "int \<Rightarrow> nat \<Rightarrow> int" where
  "days_before_month y m = int (sum_list (take (m - 1) (month_lengths y)))"

definition timestamp_of :: "int \<Rightarrow> nat \<Rightarrow> nat \<Rightarrow> nat \<Rightarrow> timestamp" where
  "timestamp_of y m d h =
     Hours (24 * (days_before_year y + days_before_month y m + int d - 1) + int h)"

definition hour :: "timestamp \<Rightarrow> nat" where
  "hour t = nat (hours_of t mod 24)"

definition dayofweek :: "timestamp \<Rightarrow> nat" where
  "dayofweek t = nat ((hours_of t div 24) mod 7)"

definition date_range :: "timestamp \<Rightarrow> timestamp \<Rightarrow> timestamp list" where
  "date_range start stop =
     map (\<lambda>k. Hours (hours_of start + int k)) [0..<nat (hours_of stop - hours_of start + 1)]"

definition year_start :: "int \<Rightarrow> timestamp" where
  "year_start y = timestamp_of y 1 1 0"

definition year_stop :: "int \<Rightarrow> timestamp" where
  "year_stop y = timestamp_of y 12 31 23"

abbreviation year_hours :: "int \<Rightarrow> timestamp list" where
  "year_hours y \<equiv> date_range (year_start y) (year_stop y)"

text \<open>
  The two bounds are strings made from the integer \<open>year\<close> with no padding and no check.
  For a four-digit year from 1678 to 2261 they are ISO dates inside the range every pandas
  release can represent, and are read as 1 January 00:00 (\<open>year_start\<close>) and 31 December
  23:00 (\<open>year_stop\<close>) of that year.
  For any other integer the source does not fix the reading: pandas may raise, or hand the
  string to a parser that takes the fields in another order (\<open>26-01-01\<close> is then 26 January
  2001 and \<open>26-12-31 23:00\<close> is 26 December 2031). That reading is the parameter \<open>reader\<close>:
  a fault, or the two bounds that pandas obtains.
\<close>

datatype error = RetrieverFault | CalendarFault

definition read_year_bounds ::
  "(int \<Rightarrow> error + timestamp \<times> timestamp) \<Rightarrow> int \<Rightarrow> error + timestamp \<times> timestamp" where
  "read_year_bounds reader y =
     (if 1678 \<le> y \<and> y \<le> 2261 then Inr (year_start y, year_stop y) else reader y)"

record LoadCurveGenerator =
  year :: int
  dates :: "timestamp list"
  n_hours :: nat

definition LoadCurveGenerator_init ::
  "(int \<Rightarrow> error + timestamp \<times> timestamp) \<Rightarrow> int \<Rightarrow> error + LoadCurveGenerator" where
  "LoadCurveGenerator_init reader y =
     (case read_year_bounds reader y of
        Inl e \<Rightarrow> Inl e
      | Inr (start, stop) \<Rightarrow>
          Inr \<lparr>year = y, dates = date_range start stop,
               n_hours = length (date_range start stop)\<rparr>)"

section \<open>The collaborators: retriever, random source, configuration, console\<close>

text \<open>
  Numbers are exact reals: the model leaves rounding out, so "within floating tolerance"
  reads as equality.

  \<open>EliaDataConnector\<close> and \<open>SETTINGS\<close> are imported by the generator and are parameters
  here. The retriever answers \<open>fetch_real_load_curve(days)\<close> with a fault or with a (possibly
  empty) sequence of hourly values; each request is logged in \<open>elia_calls\<close>. The global numpy
  random source is a stream of standard normal draws read from position \<open>rng_pos\<close>;
  \<open>np.random.normal(loc, scale, size)\<close> consumes \<open>size\<close> of them and returns
  \<open>loc + scale * z\<close> for each. \<open>stdout\<close> collects what \<open>print\<close> writes.
\<close>

record settings =
  WEEKEND_DAYS :: "int list"

record world =
  elia_response :: "nat \<Rightarrow> error + real list"
  elia_calls :: "nat list"
  rng_draws :: "nat \<Rightarrow> real"
  rng_pos :: nat
  stdout :: "string list"

record series =
  series_values :: "real list"
  series_index :: "timestamp list"
  series_name :: string

definition print :: "string \<Rightarrow> world \<Rightarrow> world" where
  "print s w = w\<lparr>stdout := stdout w @ [s]\<rparr>"

definition fetch_real_load_curve :: "nat \<Rightarrow> world \<Rightarrow> (error + real list) \<times> world" where
  "fetch_real_load_curve days w = (elia_response w days, w\<lparr>elia_calls := elia_calls w @ [days]\<rparr>)"

definition random_normal :: "real \<Rightarrow> real \<Rightarrow> nat \<Rightarrow> world \<Rightarrow> real list \<times> world" where
  "random_normal loc scale count w =
     (map (\<lambda>k. loc + scale * rng_draws w (rng_pos w + k)) [0..<count],
      w\<lparr>rng_pos := rng_pos w + count\<rparr>)"

section \<open>Array operations\<close>

text \<open>
  \<open>np_tile\<close> is \<open>np.tile\<close> on a one-dimensional array. \<open>mask_sum\<close> is \<open>mask.sum()\<close>,
  \<open>mask_select xs mask\<close> is \<open>xs[mask]\<close>, \<open>mask_scale xs mask c\<close> is \<open>xs[mask] *= c\<close>,
  \<open>mask_fill xs mask c\<close> is \<open>xs[mask] = c\<close> for a scalar and \<open>mask_assign xs mask vs\<close> is
  \<open>xs[mask] = vs\<close> for an array: the values go to the selected positions in order. numpy
  rejects a mask of the wrong length and a value array of the wrong size; the generator
  always passes a mask built from its own calendar and as many values as the mask selects.
\<close>

definition np_tile :: "'a list \<Rightarrow> nat \<Rightarrow> 'a list" where
  "np_tile pattern reps = concat (replicate reps pattern)"

definition isin :: "nat \<Rightarrow> int list \<Rightarrow> bool" where
  "isin d ds = (int d \<in> set ds)"

definition mask_sum :: "bool list \<Rightarrow> nat" where
  "mask_sum sel = length (filter id sel)"

definition mask_select :: "'a list \<Rightarrow> bool list \<Rightarrow> 'a list" where
  "mask_select xs sel = map fst (filter snd (zip xs sel))"

definition mask_scale :: "real list \<Rightarrow> bool list \<Rightarrow> real \<Rightarrow> real list" where
  "mask_scale xs sel c = map (\<lambda>(x, b). if b then x * c else x) (zip xs sel)"

definition mask_fill :: "real list \<Rightarrow> bool list \<Rightarrow> real \<Rightarrow> real list" where
  "mask_fill xs sel c = map (\<lambda>(x, b). if b then c else x) (zip xs sel)"

fun mask_assign :: "real list \<Rightarrow> bool list \<Rightarrow> real list \<Rightarrow> real list" where
  "mask_assign (x # xs) (True # sel) (v # vs) = v # mask_assign xs sel vs"
| "mask_assign (x # xs) (False # sel) vs = x # mask_assign xs sel vs"
| "mask_assign xs sel vs = xs"

section \<open>generate_profile\<close>

text \<open>The real-data branch: tiling (lines 67-68) and its normalization (lines 71-77).\<close>

definition tile_to_calendar :: "LoadCurveGenerator \<Rightarrow> real list \<Rightarrow> real list" where
  "tile_to_calendar self pattern =
     (let repeats = n_hours self div length pattern + 1
      in take (n_hours self) (np_tile pattern repeats))"

definition normalize_real :: "LoadCurveGenerator \<Rightarrow> real list \<Rightarrow> real \<Rightarrow> real list" where
  "normalize_real self full_pattern annual_volume_mwh =
     (let total_units = sum_list full_pattern
      in if total_units = 0 then replicate (n_hours self) 0
         else map (\<lambda>x. (x / total_units) * annual_volume_mwh) full_pattern)"

text \<open>The three synthetic shapes (lines 98-113, 121-137, 145-161).\<close>

definition industry_shape :: "LoadCurveGenerator \<Rightarrow> settings \<Rightarrow> world \<Rightarrow> real list \<times> world" where
  "industry_shape self st w =
     (case random_normal 1.0 0.05 (n_hours self) w of (base_curve, w') \<Rightarrow>
        let is_weekend = map (\<lambda>t. isin (dayofweek t) (WEEKEND_DAYS st)) (dates self)
        in (mask_scale base_curve is_weekend 0.85, w'))"

definition is_working_hour :: "timestamp \<Rightarrow> bool" where
  "is_working_hour t = (hour t \<ge> 8 \<and> hour t \<le> 18 \<and> dayofweek t < 5)"

definition office_shape :: "LoadCurveGenerator \<Rightarrow> real list \<Rightarrow> world \<Rightarrow> real list \<times> world" where
  "office_shape self base_curve w =
     (let is_working = map is_working_hour (dates self)
      in case random_normal 1.0 0.1 (mask_sum is_working) w of (draws, w') \<Rightarrow>
           (mask_fill (mask_assign base_curve is_working draws) (map Not is_working) 0.1, w'))"

definition is_daylight_hour :: "timestamp \<Rightarrow> bool" where
  "is_daylight_hour t = (hour t \<ge> 6 \<and> hour t \<le> 20)"

definition solar_shape :: "LoadCurveGenerator \<Rightarrow> real list \<Rightarrow> real list" where
  "solar_shape self base_curve =
     (let hours = map hour (dates self);
          daylight = map is_daylight_hour (dates self);
          shaped = mask_assign base_curve daylight
                     (map (\<lambda>h. sin ((real h - 6) * pi / 14)) (mask_select hours daylight))
      in map (\<lambda>x. max x 0) shaped)"

definition synthetic_shape ::
  "LoadCurveGenerator \<Rightarrow> settings \<Rightarrow> string \<Rightarrow> world \<Rightarrow> real list \<times> world" where
  "synthetic_shape self st profile_type w =
     (let base_curve = replicate (n_hours self) 0
      in if profile_type = ''INDUSTRY_24_7'' then industry_shape self st w
         else if profile_type = ''OFFICE_BUILDING'' then office_shape self base_curve w
         else if profile_type = ''SOLAR_PPA'' then (solar_shape self base_curve, w)
         else (base_curve, w))"

text \<open>The normalization of the synthetic curve (lines 166-175).\<close>

definition normalize_synthetic :: "real list \<Rightarrow> real \<Rightarrow> real list" where
  "normalize_synthetic base_curve annual_volume_mwh =
     (let total_units = sum_list base_curve
      in if total_units > 0 then map (\<lambda>x. (x / total_units) * annual_volume_mwh) base_curve
         else base_curve)"

definition synthetic_profile ::
  "LoadCurveGenerator \<Rightarrow> settings \<Rightarrow> string \<Rightarrow> real \<Rightarrow> world \<Rightarrow> (error + series) \<times> world" where
  "synthetic_profile self st profile_type annual_volume_mwh w =
     (case synthetic_shape self st profile_type
             (print ''Using synthetic load generator (fallback).'' w) of
        (base_curve, w') \<Rightarrow>
          (Inr \<lparr>series_values = normalize_synthetic base_curve annual_volume_mwh,
                series_index = dates self,
                series_name = ''Synthetic Load''\<rparr>, w'))"

definition generate_profile ::
  "LoadCurveGenerator \<Rightarrow> settings \<Rightarrow> string \<Rightarrow> real \<Rightarrow> world \<Rightarrow> (error + series) \<times> world" where
  "generate_profile self st profile_type annual_volume_mwh w =
     (if profile_type = ''INDUSTRY_24_7'' then
        (case fetch_real_load_curve 14
                (print ''Attempting to retrieve real Elia load profile...'' w) of
           (Inl e, w1) \<Rightarrow> (Inl e, w1)
         | (Inr real_curve, w1) \<Rightarrow>
             if real_curve \<noteq> [] then
               (Inr \<lparr>series_values =
                       normalize_real self (tile_to_calendar self real_curve) annual_volume_mwh,
                     series_index = dates self,
                     series_name = ''Real Load (MWh)''\<rparr>,
                print ''Load profile generated using real Elia data.'' w1)
             else synthetic_profile self st profile_type annual_volume_mwh w1)
      else synthetic_profile self st profile_type annual_volume_mwh w)"

text \<open>
  The tiling as the specification words it: the pattern repeated
  \<open>ceil(n_hours / len(pattern))\<close> times, then cut to the calendar length.
\<close>

definition ceil_div :: "nat \<Rightarrow> nat \<Rightarrow> nat" where
  "ceil_div n d = (n + d - 1) div d"

definition tile_to_calendar_spec :: "nat \<Rightarrow> real list \<Rightarrow> real list" where
  "tile_to_calendar_spec n pattern = take n (concat (replicate (ceil_div n (length pattern)) pattern))"

section \<open>The hourly tab of the spreadsheet export\<close>









section \<open>Sample inputs\<close>

definition sample_settings :: settings where
  "sample_settings = \<lparr>WEEKEND_DAYS = [5, 6]\<rparr>"

definition no_data :: "nat \<Rightarrow> error + real list" where
  "no_data days = Inr []"

definition three_values :: "nat \<Rightarrow> error + real list" where
  "three_values days = Inr [3, 1, 2]"

definition alternating :: "nat \<Rightarrow> error + real list" where
  "alternating days = Inr [1, - 1]"

definition zero_draws :: "nat \<Rightarrow> real" where
  "zero_draws k = 0"

definition low_draws :: "nat \<Rightarrow> real" where
  "low_draws k = - 30"

definition sample_world :: world where
  "sample_world =
     \<lparr>elia_response = no_data, elia_calls = [], rng_draws = zero_draws, rng_pos = 0, stdout = []\<rparr>"

definition real_data_world :: world where
  "real_data_world =
     \<lparr>elia_response = three_values, elia_calls = [], rng_draws = zero_draws, rng_pos = 0,
      stdout = []\<rparr>"

definition alternating_world :: world where
  "alternating_world =
     \<lparr>elia_response = alternating, elia_calls = [], rng_draws = zero_draws, rng_pos = 0,
      stdout = []\<rparr>"

definition low_world :: world where
  "low_world =
     \<lparr>elia_response = no_data, elia_calls = [], rng_draws = low_draws, rng_pos = 7, stdout = []\<rparr>"


text \<open>
  Generators: the ones the constructor builds for 2026 and for the leap year 2024, and the
  one it builds for the two-digit year 26 when the year strings are read day first.
\<close>

definition no_reader :: "int \<Rightarrow> error + timestamp \<times> timestamp" where
  "no_reader y = Inl CalendarFault"

definition jan26_2001 :: timestamp where
  "jan26_2001 = timestamp_of 2001 1 26 0"

definition dec26_2031 :: timestamp where
  "dec26_2031 = timestamp_of 2031 12 26 23"

definition day_first_reader :: "int \<Rightarrow> error + timestamp \<times> timestamp" where
  "day_first_reader y = (if y = 26 then Inr (jan26_2001, dec26_2031) else Inl CalendarFault)"

definition generator_2026 :: LoadCurveGenerator where
  "generator_2026 =
     \<lparr>year = 2026, dates = year_hours 2026, n_hours = length (year_hours 2026)\<rparr>"

definition generator_2024 :: LoadCurveGenerator where
  "generator_2024 =
     \<lparr>year = 2024, dates = year_hours 2024, n_hours = length (year_hours 2024)\<rparr>"

definition generator_26 :: LoadCurveGenerator where
  "generator_26 =
     \<lparr>year = 26, dates = date_range jan26_2001 dec26_2031,
      n_hours = length (date_range jan26_2001 dec26_2031)\<rparr>"

section \<open>Calendar facts\<close>

lemma length_date_range: "length (date_range a b) = nat (hours_of b - hours_of a + 1)"
  by (simp add: date_range_def)

lemma nth_date_range:
  "i < length (date_range a b) \<Longrightarrow> date_range a b ! i = Hours (hours_of a + int i)"
  by (simp add: date_range_def)

lemma days_before_month_12: "days_before_month y 12 = (if is_leap y then 335 else 334)"
  by (simp add: days_before_month_def month_lengths_def)

lemma hours_of_jan1: "hours_of (year_start y) = 24 * days_before_year y"
  by (simp add: year_start_def timestamp_of_def days_before_month_def)

lemma hours_of_dec31:
  "hours_of (year_stop y) = 24 * days_before_year y + (if is_leap y then 8783 else 8759)"
  by (simp add: year_stop_def timestamp_of_def days_before_month_12)

lemma length_year_hours: "length (year_hours y) = (if is_leap y then 8784 else 8760)"
  by (simp add: length_date_range hours_of_jan1 hours_of_dec31)

lemma nth_year_hours:
  "i < length (year_hours y) \<Longrightarrow> year_hours y ! i = Hours (24 * days_before_year y + int i)"
  by (simp add: nth_date_range hours_of_jan1)

lemma hour_year_hours: "i < length (year_hours y) \<Longrightarrow> hour (year_hours y ! i) = i mod 24"
  by (simp add: nth_year_hours hour_def nat_mod_distrib)

lemma dayofweek_year_hours:
  "i < length (year_hours y) \<Longrightarrow>
     dayofweek (year_hours y ! i) = nat ((days_before_year y + int (i div 24)) mod 7)"
  by (simp add: nth_year_hours dayofweek_def zdiv_int)

lemma init_in_window:
  "1678 \<le> y \<Longrightarrow> y \<le> 2261 \<Longrightarrow>
     LoadCurveGenerator_init reader y =
       Inr \<lparr>year = y, dates = year_hours y, n_hours = length (year_hours y)\<rparr>"
  by (simp add: LoadCurveGenerator_init_def read_year_bounds_def)

lemma init_well_formed:
  "LoadCurveGenerator_init reader y = Inr g \<Longrightarrow> n_hours g = length (dates g)"
  by (auto simp: LoadCurveGenerator_init_def split: sum.splits prod.splits)

lemma init_2026: "LoadCurveGenerator_init reader 2026 = Inr generator_2026"
  by (simp add: init_in_window generator_2026_def)

lemma init_2024: "LoadCurveGenerator_init reader 2024 = Inr generator_2024"
  by (simp add: init_in_window generator_2024_def)

lemma init_26: "LoadCurveGenerator_init day_first_reader 26 = Inr generator_26"
  by (simp add: LoadCurveGenerator_init_def read_year_bounds_def day_first_reader_def
      generator_26_def)

lemma not_leap_2026: "\<not> is_leap 2026"
  by (simp add: is_leap_def)

lemma leap_2024: "is_leap 2024"
  by (simp add: is_leap_def)

lemma not_leap_26: "\<not> is_leap 26"
  by (simp add: is_leap_def)

lemma generator_2026_calendar:
  "dates generator_2026 = year_hours 2026" "n_hours generator_2026 = 8760"
  "length (dates generator_2026) = 8760" "length (year_hours 2026) = 8760"
  by (simp_all add: generator_2026_def length_year_hours not_leap_2026)

lemma generator_2024_calendar:
  "dates generator_2024 = year_hours 2024" "n_hours generator_2024 = 8784"
  "length (dates generator_2024) = 8784"
  by (simp_all add: generator_2024_def length_year_hours leap_2024)

lemma bounds_26:
  "hours_of jan26_2001 = 17532240" "hours_of dec26_2031 = 17803247"
  by (simp_all add: jan26_2001_def dec26_2031_def timestamp_of_def days_before_year_def
      days_before_month_def month_lengths_def is_leap_def)

lemma generator_26_calendar:
  "n_hours generator_26 = 271008" "length (dates generator_26) = 271008"
  by (simp_all add: generator_26_def length_date_range bounds_26)

lemma hour_2026: "i < 8760 \<Longrightarrow> hour (dates generator_2026 ! i) = i mod 24"
  by (simp add: generator_2026_calendar hour_year_hours)

lemma weekday_shift: "nat ((739616 + int k) mod 7) = (3 + k) mod 7"
proof -
  have "739616 + int k = int (3 + k) + 105659 * 7" by simp
  then have "(739616 + int k) mod 7 = int (3 + k) mod 7"
    by (simp only: mod_mult_self1)
  also have "\<dots> = int ((3 + k) mod 7)" by (simp add: zmod_int)
  finally show ?thesis by (simp only: nat_int)
qed

lemma days_before_2026: "days_before_year 2026 = 739616"
  by (simp add: days_before_year_def)

lemma dayofweek_2026: "i < 8760 \<Longrightarrow> dayofweek (dates generator_2026 ! i) = (3 + i div 24) mod 7"
  by (simp only: generator_2026_calendar dayofweek_year_hours days_before_2026 weekday_shift)

section \<open>Array facts\<close>

lemma sum_list_replicate_zero: "sum_list (replicate n (0::real)) = 0"
  by (induction n) simp_all

lemma length_mask_assign: "length (mask_assign xs sel vs) = length xs"
  by (induction xs sel vs rule: mask_assign.induct) simp_all

lemma length_mask_fill: "length sel = length xs \<Longrightarrow> length (mask_fill xs sel c) = length xs"
  by (simp add: mask_fill_def)

lemma length_mask_scale: "length sel = length xs \<Longrightarrow> length (mask_scale xs sel c) = length xs"
  by (simp add: mask_scale_def)

lemma length_normalize_synthetic: "length (normalize_synthetic xs v) = length xs"
  by (simp add: normalize_synthetic_def Let_def)

section \<open>What a call changes in the world\<close>





lemma synthetic_profile_fst:
  "fst (synthetic_profile self st pt v w) =
     Inr \<lparr>series_values =
            normalize_synthetic
              (fst (synthetic_shape self st pt
                 (print ''Using synthetic load generator (fallback).'' w))) v,
          series_index = dates self, series_name = ''Synthetic Load''\<rparr>"
  by (simp add: synthetic_profile_def case_prod_beta)

lemma synthetic_shape_unknown:
  "pt \<noteq> ''INDUSTRY_24_7'' \<Longrightarrow> pt \<noteq> ''OFFICE_BUILDING'' \<Longrightarrow> pt \<noteq> ''SOLAR_PPA'' \<Longrightarrow>
     synthetic_shape self st pt w = (replicate (n_hours self) 0, w)"
  by (simp add: synthetic_shape_def)

lemma normalize_synthetic_zeros:
  "normalize_synthetic (replicate n 0) v = replicate n 0"
  by (simp add: normalize_synthetic_def sum_list_replicate_zero)

section \<open>Tiling the real sample\<close>

lemma length_concat_replicate: "length (concat (replicate k p)) = k * length p"
  by (induction k) simp_all

lemma nth_concat_replicate:
  "i < k * length p \<Longrightarrow> concat (replicate k p) ! i = p ! (i mod length p)"
proof (induction k arbitrary: i)
  case 0
  then show ?case by simp
next
  case (Suc k)
  show ?case
  proof (cases "i < length p")
    case True
    then show ?thesis by (simp add: nth_append)
  next
    case False
    then have "i - length p < k * length p" using Suc.prems by simp
    then have "concat (replicate k p) ! (i - length p) = p ! ((i - length p) mod length p)"
      by (rule Suc.IH)
    moreover have "(i - length p) mod length p = i mod length p"
      using False by (simp add: le_mod_geq)
    ultimately show ?thesis using False by (simp add: nth_append)
  qed
qed

lemma repeats_cover: "0 < d \<Longrightarrow> n < (n div d + 1) * (d::nat)"
proof -
  assume d: "0 < d"
  have "n = n div d * d + n mod d" by simp
  moreover have "n mod d < d" using d by simp
  ultimately have "n < n div d * d + d" by linarith
  then show ?thesis by (simp add: algebra_simps)
qed

lemma ceil_div_cover: "0 < d \<Longrightarrow> n \<le> ceil_div n d * d"
proof -
  assume d: "0 < d"
  have "n + d - 1 = ceil_div n d * d + (n + d - 1) mod d"
    by (simp add: ceil_div_def)
  moreover have "(n + d - 1) mod d < d" using d by simp
  ultimately show ?thesis using d by linarith
qed

lemma length_tile_to_calendar:
  "pattern \<noteq> [] \<Longrightarrow> length (tile_to_calendar self pattern) = n_hours self"
  using repeats_cover [of "length pattern" "n_hours self"]
  by (simp add: tile_to_calendar_def np_tile_def length_concat_replicate Let_def)

lemma nth_tile_to_calendar:
  assumes "pattern \<noteq> []" and "i < n_hours self"
  shows "tile_to_calendar self pattern ! i = pattern ! (i mod length pattern)"
proof -
  have "i < (n_hours self div length pattern + 1) * length pattern"
    using repeats_cover [of "length pattern" "n_hours self"] assms by simp
  then have "concat (replicate (n_hours self div length pattern + 1) pattern) ! i =
      pattern ! (i mod length pattern)"
    by (rule nth_concat_replicate)
  then show ?thesis
    using assms(2) by (simp only: tile_to_calendar_def np_tile_def Let_def nth_take)
qed

lemma length_tile_to_calendar_spec:
  "pattern \<noteq> [] \<Longrightarrow> length (tile_to_calendar_spec n pattern) = n"
  using ceil_div_cover [of "length pattern" n]
  by (simp add: tile_to_calendar_spec_def length_concat_replicate)

lemma nth_tile_to_calendar_spec:
  "pattern \<noteq> [] \<Longrightarrow> i < n \<Longrightarrow>
     tile_to_calendar_spec n pattern ! i = pattern ! (i mod length pattern)"
  using ceil_div_cover [of "length pattern" n]
  by (simp add: tile_to_calendar_spec_def nth_concat_replicate)

lemma tile_to_calendar_refines:
  "pattern \<noteq> [] \<Longrightarrow> tile_to_calendar self pattern = tile_to_calendar_spec (n_hours self) pattern"
  by (rule nth_equalityI)
     (simp_all add: length_tile_to_calendar length_tile_to_calendar_spec
        nth_tile_to_calendar nth_tile_to_calendar_spec)

lemma sum_list_concat_replicate:
  "sum_list (concat (replicate k p)) = of_nat k * sum_list (p::real list)"
  by (induction k) (simp_all add: algebra_simps)

lemma ceil_div_multiple: "0 < d \<Longrightarrow> ceil_div (k * d) d = k"
proof -
  assume "0 < d"
  then obtain e where e: "d = Suc e" by (cases d) simp_all
  have a: "k * Suc e + Suc e - 1 = e + k * Suc e" by simp
  have b: "(e + k * Suc e) div Suc e = k + e div Suc e" by (rule div_mult_self1) simp
  have c: "e div Suc e = 0" by simp
  show ?thesis unfolding ceil_div_def e a b c by simp
qed

lemma sum_list_tile_whole:
  assumes "pattern \<noteq> []" and "n_hours self = k * length pattern"
  shows "sum_list (tile_to_calendar self pattern) = of_nat k * sum_list pattern"
proof -
  have "ceil_div (k * length pattern) (length pattern) = k"
    using assms(1) by (simp add: ceil_div_multiple)
  then have "tile_to_calendar_spec (n_hours self) pattern = concat (replicate k pattern)"
    by (simp add: tile_to_calendar_spec_def assms(2) length_concat_replicate)
  then show ?thesis
    by (simp add: tile_to_calendar_refines [OF assms(1)] sum_list_concat_replicate)
qed

lemma sum_list_rescale:
  "sum_list xs \<noteq> 0 \<Longrightarrow> sum_list (map (\<lambda>x. (x / sum_list xs) * v) xs) = (v::real)"
proof -
  assume nz: "sum_list xs \<noteq> 0"
  have "sum_list (map (\<lambda>x. x * c) ys) = sum_list ys * c" for c :: real and ys
    by (induction ys) (simp_all add: algebra_simps)
  from this [of "v / sum_list xs" xs]
  have "sum_list (map (\<lambda>x. x * (v / sum_list xs)) xs) = sum_list xs * (v / sum_list xs)" .
  moreover have "(\<lambda>x. (x / sum_list xs) * v) = (\<lambda>x. x * (v / sum_list xs))"
    by (rule ext) simp
  ultimately show ?thesis using nz by simp
qed

lemma generate_profile_real:
  assumes "elia_response w 14 = Inr pattern" and "pattern \<noteq> []"
  shows "generate_profile self st ''INDUSTRY_24_7'' v w =
     (Inr \<lparr>series_values = normalize_real self (tile_to_calendar self pattern) v,
           series_index = dates self, series_name = ''Real Load (MWh)''\<rparr>,
      print ''Load profile generated using real Elia data.''
        (snd (fetch_real_load_curve 14
           (print ''Attempting to retrieve real Elia load profile...'' w))))"
  using assms by (simp add: generate_profile_def fetch_real_load_curve_def print_def)

section \<open>Normalization\<close>

lemma normalize_synthetic_pos:
  "0 < sum_list c \<Longrightarrow> normalize_synthetic c v = map (\<lambda>x. x / sum_list c * v) c"
  by (simp add: normalize_synthetic_def)

lemma normalize_synthetic_zero:
  "sum_list c = 0 \<Longrightarrow> normalize_synthetic c v = c"
  by (simp add: normalize_synthetic_def)


lemma normalize_real_pos:
  "0 < sum_list c \<Longrightarrow> normalize_real self c v = map (\<lambda>x. x / sum_list c * v) c"
  by (simp add: normalize_real_def)

lemma normalize_real_zero:
  "sum_list c = 0 \<Longrightarrow> normalize_real self c v = replicate (n_hours self) 0"
  by (simp add: normalize_real_def)

lemma generate_profile_synthetic:
  assumes "pt \<noteq> ''INDUSTRY_24_7'' \<or> elia_response w 14 = Inr []"
  shows "fst (generate_profile self st pt v w) =
     Inr \<lparr>series_values =
            normalize_synthetic
              (fst (synthetic_shape self st pt
                 (print ''Using synthetic load generator (fallback).''
                   (if pt = ''INDUSTRY_24_7''
                    then snd (fetch_real_load_curve 14
                           (print ''Attempting to retrieve real Elia load profile...'' w))
                    else w)))) v,
          series_index = dates self, series_name = ''Synthetic Load''\<rparr>"
proof (cases "pt = ''INDUSTRY_24_7''")
  case True
  with assms have "elia_response w 14 = Inr []" by simp
  with True have "generate_profile self st pt v w =
      synthetic_profile self st pt v (snd (fetch_real_load_curve 14
         (print ''Attempting to retrieve real Elia load profile...'' w)))"
    by (simp add: generate_profile_def fetch_real_load_curve_def print_def)
  with True show ?thesis by (simp add: synthetic_profile_fst)
next
  case False
  then show ?thesis by (simp add: generate_profile_def synthetic_profile_fst)
qed

section \<open>Length and index of the returned series\<close>

lemma length_industry_shape:
  "length (dates self) = n_hours self \<Longrightarrow>
     length (fst (industry_shape self st w)) = n_hours self"
  by (simp add: industry_shape_def random_normal_def Let_def length_mask_scale)

lemma length_office_shape:
  "length (dates self) = n_hours self \<Longrightarrow> length b = n_hours self \<Longrightarrow>
     length (fst (office_shape self b w)) = n_hours self"
  by (simp add: office_shape_def random_normal_def Let_def length_mask_fill length_mask_assign)

lemma length_solar_shape: "length (solar_shape self b) = length b"
  by (simp add: solar_shape_def Let_def length_mask_assign)

lemma length_synthetic_shape:
  "length (dates self) = n_hours self \<Longrightarrow>
     length (fst (synthetic_shape self st pt w)) = n_hours self"
  by (simp add: synthetic_shape_def Let_def length_industry_shape length_office_shape
      length_solar_shape)

lemma length_normalize_real:
  "length c = n_hours self \<Longrightarrow> length (normalize_real self c v) = n_hours self"
  by (simp add: normalize_real_def Let_def)

section \<open>Boolean-mask indexing\<close>

lemma mask_select_map: "mask_select (map g ys) (map P ys) = map g (filter P ys)"
  by (induction ys) (simp_all add: mask_select_def)

lemma mask_assign_map_filter:
  "length xs = length ys \<Longrightarrow>
     mask_assign xs (map P ys) (map f (filter P ys)) =
       map (\<lambda>(x, y). if P y then f y else x) (zip xs ys)"
  by (induction xs ys rule: list_induct2) simp_all

lemma nth_mask_fill:
  "length sel = length xs \<Longrightarrow> i < length xs \<Longrightarrow>
     mask_fill xs sel c ! i = (if sel ! i then c else xs ! i)"
  by (simp add: mask_fill_def)

lemma nth_mask_scale:
  "length sel = length xs \<Longrightarrow> i < length xs \<Longrightarrow>
     mask_scale xs sel c ! i = (if sel ! i then xs ! i * c else xs ! i)"
  by (simp add: mask_scale_def)

lemma mask_sum_Cons: "mask_sum (b # sel) = (if b then Suc (mask_sum sel) else mask_sum sel)"
  by (simp add: mask_sum_def)

lemma mask_sum_Nil: "mask_sum [] = 0"
  by (simp add: mask_sum_def)

lemma nth_mask_assign:
  "length sel = length xs \<Longrightarrow> length vs = mask_sum sel \<Longrightarrow> i < length xs \<Longrightarrow>
     mask_assign xs sel vs ! i = (if sel ! i then vs ! mask_sum (take i sel) else xs ! i)"
proof (induction xs sel vs arbitrary: i rule: mask_assign.induct)
  case (1 x xs sel v vs)
  then show ?case by (cases i) (simp_all add: mask_sum_Cons mask_sum_Nil)
next
  case (2 x xs sel vs)
  then show ?case by (cases i) (simp_all add: mask_sum_Cons mask_sum_Nil)
qed (simp_all add: mask_sum_Cons mask_sum_Nil)

lemma mask_sum_take_less:
  "i < length sel \<Longrightarrow> sel ! i \<Longrightarrow> mask_sum (take i sel) < mask_sum sel"
proof (induction sel arbitrary: i)
  case Nil
  then show ?case by simp
next
  case (Cons b sel)
  then show ?case by (cases i) (simp_all add: mask_sum_Cons mask_sum_Nil)
qed

lemma mask_sum_take_mono:
  "i < j \<Longrightarrow> j \<le> length sel \<Longrightarrow> sel ! i \<Longrightarrow> mask_sum (take i sel) < mask_sum (take j sel)"
  using mask_sum_take_less [of i "take j sel"] by (simp add: min_def)

section \<open>The solar shape\<close>

lemma solar_shape_zeros:
  "length (dates self) = n \<Longrightarrow>
     solar_shape self (replicate n 0) =
       map (\<lambda>t. max (if is_daylight_hour t then sin ((real (hour t) - 6) * pi / 14) else 0) 0)
         (dates self)"
proof -
  assume l: "length (dates self) = n"
  have "mask_assign (replicate n 0) (map is_daylight_hour (dates self))
          (map (\<lambda>h. sin ((real h - 6) * pi / 14))
             (mask_select (map hour (dates self)) (map is_daylight_hour (dates self)))) =
        map (\<lambda>(x, t). if is_daylight_hour t then sin ((real (hour t) - 6) * pi / 14) else x)
          (zip (replicate n 0) (dates self))"
    using mask_assign_map_filter
      [of "replicate n 0" "dates self" is_daylight_hour "\<lambda>t. sin ((real (hour t) - 6) * pi / 14)"] l
    by (simp add: mask_select_map comp_def)
  also have "\<dots> = map (\<lambda>t. if is_daylight_hour t then sin ((real (hour t) - 6) * pi / 14) else 0)
      (dates self)"
    using l by (intro nth_equalityI) simp_all
  finally show ?thesis
    by (simp add: solar_shape_def Let_def comp_def)
qed

lemma solar_shape_nonneg: "x \<in> set (solar_shape self b) \<Longrightarrow> 0 \<le> x"
  by (auto simp: solar_shape_def Let_def)

lemma sum_list_pos_real:
  "(\<And>x. x \<in> set xs \<Longrightarrow> 0 \<le> x) \<Longrightarrow> i < length xs \<Longrightarrow> 0 < xs ! i \<Longrightarrow> 0 < sum_list (xs :: real list)"
proof (induction xs arbitrary: i)
  case Nil
  then show ?case by simp
next
  case (Cons a xs)
  have nn: "0 \<le> sum_list xs" using Cons.prems(1) by (intro sum_list_nonneg) simp
  show ?case
  proof (cases i)
    case 0
    with Cons.prems(3) nn show ?thesis by simp
  next
    case (Suc k)
    with Cons.prems have "0 < sum_list xs" by (intro Cons.IH [of k]) simp_all
    moreover have "0 \<le> a" using Cons.prems(1) by simp
    ultimately show ?thesis by simp
  qed
qed

lemma solar_curve_nonneg_sum: "0 \<le> sum_list (solar_shape self b)"
  by (intro sum_list_nonneg) (rule solar_shape_nonneg)

lemma solar_total_pos:
  assumes "length (dates g) = n_hours g" and "k < length (dates g)" and "hour (dates g ! k) = 7"
  shows "0 < sum_list (solar_shape g (replicate (n_hours g) 0))"
proof (rule sum_list_pos_real [where i = k])
  fix x
  assume "x \<in> set (solar_shape g (replicate (n_hours g) 0))"
  then show "0 \<le> x" by (rule solar_shape_nonneg)
next
  show "k < length (solar_shape g (replicate (n_hours g) 0))"
    using assms by (simp add: length_solar_shape)
next
  have "0 < sin (pi / 14)" by (intro sin_gt_zero) (simp_all add: pi_gt_zero)
  then show "0 < solar_shape g (replicate (n_hours g) 0) ! k"
    using assms by (simp add: solar_shape_zeros [OF assms(1)] is_daylight_hour_def)
qed

section \<open>The solar path as a whole\<close>

lemma solar_profile:
  "generate_profile self st ''SOLAR_PPA'' v w =
     (Inr \<lparr>series_values = normalize_synthetic (solar_shape self (replicate (n_hours self) 0)) v,
           series_index = dates self, series_name = ''Synthetic Load''\<rparr>,
      print ''Using synthetic load generator (fallback).'' w)"
  by (simp add: generate_profile_def synthetic_profile_def synthetic_shape_def)

section \<open>The synthetic industrial shape\<close>

lemma nth_industry_shape:
  assumes "length (dates self) = n_hours self" and "i < n_hours self"
  shows "fst (industry_shape self st w) ! i =
           (if isin (dayofweek (dates self ! i)) (WEEKEND_DAYS st)
            then (1.0 + 0.05 * rng_draws w (rng_pos w + i)) * 0.85
            else 1.0 + 0.05 * rng_draws w (rng_pos w + i))"
  using assms
  by (simp add: industry_shape_def random_normal_def Let_def nth_mask_scale)

lemma fallback_world_rng:
  "rng_draws (print s (snd (fetch_real_load_curve d (print s' w)))) = rng_draws w"
  "rng_pos (print s (snd (fetch_real_load_curve d (print s' w)))) = rng_pos w"
  by (simp_all add: print_def fetch_real_load_curve_def)



section \<open>The office shape\<close>

lemma mask_sum_map: "mask_sum (map P xs) = length (filter P xs)"
  by (induction xs) (simp_all add: mask_sum_Cons mask_sum_Nil)

lemma nth_office_shape:
  assumes "length (dates self) = n_hours self" and "i < n_hours self"
  shows "fst (office_shape self (replicate (n_hours self) 0) w) ! i =
           (if is_working_hour (dates self ! i)
            then 1.0 + 0.1 * rng_draws w
                   (rng_pos w + length (filter is_working_hour (take i (dates self))))
            else 0.1)"
proof -
  define sel where "sel = map is_working_hour (dates self)"
  define draws where "draws = map (\<lambda>k. 1.0 + 0.1 * rng_draws w (rng_pos w + k)) [0..<mask_sum sel]"
  define a where "a = mask_assign (replicate (n_hours self) 0) sel draws"
  define unsel where "unsel = map Not sel"
  have shape: "fst (office_shape self (replicate (n_hours self) 0) w) = mask_fill a unsel 0.1"
    by (simp add: office_shape_def random_normal_def Let_def sel_def draws_def a_def unsel_def)
  have lsel: "length sel = n_hours self" by (simp add: sel_def assms)
  have la: "length a = n_hours self" by (simp add: a_def length_mask_assign)
  have lu: "length unsel = length a" by (simp add: unsel_def lsel la)
  have seli: "sel ! i = is_working_hour (dates self ! i)"
    using assms by (simp add: sel_def)
  have unseli: "unsel ! i = (\<not> is_working_hour (dates self ! i))"
    using assms lsel by (simp add: unsel_def seli)
  have fill: "mask_fill a unsel 0.1 ! i = (if unsel ! i then 0.1 else a ! i)"
    using lu la assms(2) by (intro nth_mask_fill) simp_all
  have rank: "mask_sum (take i sel) = length (filter is_working_hour (take i (dates self)))"
    by (simp add: sel_def take_map mask_sum_map)
  have ai: "a ! i = (if sel ! i then draws ! mask_sum (take i sel) else replicate (n_hours self) 0 ! i)"
    unfolding a_def using lsel assms(2) by (intro nth_mask_assign) (simp_all add: draws_def)
  show ?thesis
  proof (cases "is_working_hour (dates self ! i)")
    case True
    then have "mask_sum (take i sel) < mask_sum sel"
      using assms lsel seli by (intro mask_sum_take_less) simp_all
    then have "draws ! mask_sum (take i sel) =
        1.0 + 0.1 * rng_draws w (rng_pos w + mask_sum (take i sel))"
      by (simp add: draws_def)
    with True show ?thesis
      by (simp add: shape fill unseli ai seli rank)
  next
    case False
    then show ?thesis by (simp add: shape fill unseli)
  qed
qed

lemma is_working_hour_eq:
  "is_working_hour = (\<lambda>t. 8 \<le> hour t \<and> hour t \<le> 18 \<and> dayofweek t < 5)"
  by (rule ext) (simp add: is_working_hour_def)

lemma normalize_synthetic_nth_eq:
  "i < length c \<Longrightarrow> j < length c \<Longrightarrow> c ! i = c ! j \<Longrightarrow>
     normalize_synthetic c v ! i = normalize_synthetic c v ! j"
  by (simp add: normalize_synthetic_def Let_def)

section \<open>The hourly tab of the export\<close>










section \<open>C1: normalization\<close>

text \<open>
  C1 (as amended). Whatever curve reaches a normalization step of generate_profile: when its
  sum is strictly positive, each returned value is \<open>curve[i] / total * annual_volume_mwh\<close> and
  the returned values sum to \<open>annual_volume_mwh\<close>; when its sum is zero, the synthetic path
  returns the curve as it is and the real-data path returns the series of zeros of calendar
  length. Both are ordinary returns.
\<close>

theorem normalization_cases:
  fixes self st pt v w pattern
  defines "real_curve \<equiv> tile_to_calendar self pattern"
  defines "synth_curve \<equiv>
     fst (synthetic_shape self st pt
            (print ''Using synthetic load generator (fallback).''
               (if pt = ''INDUSTRY_24_7''
                then snd (fetch_real_load_curve 14
                       (print ''Attempting to retrieve real Elia load profile...'' w))
                else w)))"
  shows "(pt = ''INDUSTRY_24_7'' \<and> elia_response w 14 = Inr pattern \<and> pattern \<noteq> [] \<longrightarrow>
            (0 < sum_list real_curve \<longrightarrow>
               fst (generate_profile self st pt v w) =
                 Inr \<lparr>series_values = map (\<lambda>x. x / sum_list real_curve * v) real_curve,
                      series_index = dates self, series_name = ''Real Load (MWh)''\<rparr>
               \<and> sum_list (map (\<lambda>x. x / sum_list real_curve * v) real_curve) = v)
          \<and> (sum_list real_curve = 0 \<longrightarrow>
               fst (generate_profile self st pt v w) =
                 Inr \<lparr>series_values = replicate (n_hours self) 0,
                      series_index = dates self, series_name = ''Real Load (MWh)''\<rparr>))
       \<and> (pt \<noteq> ''INDUSTRY_24_7'' \<or> elia_response w 14 = Inr [] \<longrightarrow>
            (0 < sum_list synth_curve \<longrightarrow>
               fst (generate_profile self st pt v w) =
                 Inr \<lparr>series_values = map (\<lambda>x. x / sum_list synth_curve * v) synth_curve,
                      series_index = dates self, series_name = ''Synthetic Load''\<rparr>
               \<and> sum_list (map (\<lambda>x. x / sum_list synth_curve * v) synth_curve) = v)
          \<and> (sum_list synth_curve = 0 \<longrightarrow>
               fst (generate_profile self st pt v w) =
                 Inr \<lparr>series_values = synth_curve,
                      series_index = dates self, series_name = ''Synthetic Load''\<rparr>))"
proof (intro conjI impI)
  assume a: "pt = ''INDUSTRY_24_7'' \<and> elia_response w 14 = Inr pattern \<and> pattern \<noteq> []"
  then have g: "fst (generate_profile self st pt v w) =
      Inr \<lparr>series_values = normalize_real self real_curve v,
           series_index = dates self, series_name = ''Real Load (MWh)''\<rparr>"
    using generate_profile_real [of w pattern self st v] by (simp add: real_curve_def)
  {
    assume pos: "0 < sum_list real_curve"
    then show "fst (generate_profile self st pt v w) =
                 Inr \<lparr>series_values = map (\<lambda>x. x / sum_list real_curve * v) real_curve,
                      series_index = dates self, series_name = ''Real Load (MWh)''\<rparr>"
      using g by (simp add: normalize_real_pos)
    from pos have "sum_list real_curve \<noteq> 0" by simp
    then show "sum_list (map (\<lambda>x. x / sum_list real_curve * v) real_curve) = v"
      by (rule sum_list_rescale)
  }
  {
    assume "sum_list real_curve = 0"
    then show "fst (generate_profile self st pt v w) =
                 Inr \<lparr>series_values = replicate (n_hours self) 0,
                      series_index = dates self, series_name = ''Real Load (MWh)''\<rparr>"
      using g by (simp add: normalize_real_zero)
  }
next
  assume a: "pt \<noteq> ''INDUSTRY_24_7'' \<or> elia_response w 14 = Inr []"
  have g: "fst (generate_profile self st pt v w) =
      Inr \<lparr>series_values = normalize_synthetic synth_curve v,
           series_index = dates self, series_name = ''Synthetic Load''\<rparr>"
    unfolding synth_curve_def by (rule generate_profile_synthetic [OF a])
  {
    assume pos: "0 < sum_list synth_curve"
    then show "fst (generate_profile self st pt v w) =
                 Inr \<lparr>series_values = map (\<lambda>x. x / sum_list synth_curve * v) synth_curve,
                      series_index = dates self, series_name = ''Synthetic Load''\<rparr>"
      using g by (simp add: normalize_synthetic_pos)
    from pos have "sum_list synth_curve \<noteq> 0" by simp
    then show "sum_list (map (\<lambda>x. x / sum_list synth_curve * v) synth_curve) = v"
      by (rule sum_list_rescale)
  }
  {
    assume "sum_list synth_curve = 0"
    then show "fst (generate_profile self st pt v w) =
                 Inr \<lparr>series_values = synth_curve,
                      series_index = dates self, series_name = ''Synthetic Load''\<rparr>"
      using g by (simp add: normalize_synthetic_zero)
  }
qed

theorem normalization_cases_witness:
  "fst (generate_profile generator_2026 sample_settings ''INDUSTRY_24_7'' 1000
          real_data_world) =
     Inr \<lparr>series_values =
            map (\<lambda>x. x / sum_list (tile_to_calendar generator_2026 [3, 1, 2]) * 1000)
              (tile_to_calendar generator_2026 [3, 1, 2]),
          series_index = dates generator_2026,
          series_name = ''Real Load (MWh)''\<rparr>
   \<and> sum_list
        (map (\<lambda>x. x / sum_list (tile_to_calendar generator_2026 [3, 1, 2]) * 1000)
           (tile_to_calendar generator_2026 [3, 1, 2])) = 1000
   \<and> sum_list (tile_to_calendar generator_2026 [3, 1, 2]) = 17520"
proof -
  have r: "elia_response real_data_world 14 = Inr [3, 1, 2]"
    by (simp add: real_data_world_def three_values_def)
  have "sum_list (tile_to_calendar generator_2026 [3, 1, 2]) =
      of_nat 2920 * sum_list [3, 1, 2]"
    by (rule sum_list_tile_whole) (simp_all add: generator_2026_calendar)
  then have s: "sum_list (tile_to_calendar generator_2026 [3, 1, 2]) = 17520"
    by simp
  from normalization_cases [where pt = "''INDUSTRY_24_7''" and w = real_data_world
      and pattern = "[3, 1, 2]" and self = generator_2026 and v = 1000
      and st = sample_settings] r s
  show ?thesis by simp
qed

text \<open>
  The claim as worded fails on the real-data path: the alternating sample \<open>[1, -1]\<close> tiles
  the 8760 hours of 2026 to a curve of sum zero that starts with 1, and the series returned
  is all zeros, not that curve.
\<close>

theorem zero_sum_real_curve_replaced:
  "sum_list (tile_to_calendar generator_2026 [1, - 1]) = 0
   \<and> tile_to_calendar generator_2026 [1, - 1] ! 0 = 1
   \<and> fst (generate_profile generator_2026 sample_settings ''INDUSTRY_24_7'' 1000
             alternating_world) =
        Inr \<lparr>series_values = replicate 8760 0,
             series_index = dates generator_2026,
             series_name = ''Real Load (MWh)''\<rparr>
   \<and> replicate 8760 (0::real) ! 0 = 0"
proof -
  have r: "elia_response alternating_world 14 = Inr [1, - 1]"
    by (simp add: alternating_world_def alternating_def)
  have n: "n_hours generator_2026 = 8760"
    by (simp add: generator_2026_calendar)
  have "sum_list (tile_to_calendar generator_2026 [1, - 1]) =
      of_nat 4380 * sum_list [1, - 1]"
    by (rule sum_list_tile_whole) (simp_all add: n)
  then have s: "sum_list (tile_to_calendar generator_2026 [1, - 1]) = 0"
    by simp
  have h: "tile_to_calendar generator_2026 [1, - 1] ! 0 = [1, - 1] ! (0 mod length [1, - 1 :: real])"
    by (rule nth_tile_to_calendar) (simp_all add: n)
  have g: "fst (generate_profile generator_2026 sample_settings ''INDUSTRY_24_7''
             1000 alternating_world) =
        Inr \<lparr>series_values = replicate 8760 0,
             series_index = dates generator_2026,
             series_name = ''Real Load (MWh)''\<rparr>"
    using generate_profile_real [OF r, of generator_2026 sample_settings 1000]
    by (simp add: normalize_real_zero [OF s] n)
  have z: "replicate 8760 (0::real) ! 0 = 0"
    by (rule nth_replicate) simp
  from s h g z show ?thesis by simp
qed

section \<open>C2: length and index of the returned series\<close>

text \<open>
  C2 (as amended). For every archetype string, whenever the constructor builds a generator
  and the retriever does not fault, generate_profile returns a series with one value per
  entry of the generator's calendar, indexed by that calendar. For a four-digit year from
  1678 to 2261 the constructor does build a generator, whose calendar runs hour by hour
  from 1 January 00:00 to 31 December 23:00 of the year: 8784 entries in a leap year, 8760
  otherwise.
\<close>

theorem series_spans_calendar:
  assumes "pt \<noteq> ''INDUSTRY_24_7'' \<or> elia_response w 14 = Inr rc"
  shows "(LoadCurveGenerator_init reader y = Inr g \<longrightarrow>
            (\<exists>s. fst (generate_profile g st pt v w) = Inr s
               \<and> length (series_values s) = length (dates g)
               \<and> series_index s = dates g))
       \<and> (1678 \<le> y \<and> y \<le> 2261 \<longrightarrow>
            (\<exists>g'. LoadCurveGenerator_init reader y = Inr g'
               \<and> length (dates g') = (if is_leap y then 8784 else 8760)
               \<and> hd (dates g') = timestamp_of y 1 1 0
               \<and> last (dates g') = timestamp_of y 12 31 23
               \<and> (\<forall>i < length (dates g'). hours_of (dates g' ! i) = hours_of (hd (dates g')) + int i)))"
proof (intro conjI impI)
  assume built: "LoadCurveGenerator_init reader y = Inr g"
  have wf: "length (dates g) = n_hours g"
    using init_well_formed [OF built] by simp
  show "\<exists>s. fst (generate_profile g st pt v w) = Inr s
               \<and> length (series_values s) = length (dates g)
               \<and> series_index s = dates g"
  proof (cases "pt = ''INDUSTRY_24_7'' \<and> rc \<noteq> []")
    case True
    with assms have r: "elia_response w 14 = Inr rc" and ne: "rc \<noteq> []" by simp_all
    have "length (normalize_real g (tile_to_calendar g rc) v) = n_hours g"
      by (rule length_normalize_real) (rule length_tile_to_calendar [OF ne])
    then show ?thesis
      using True generate_profile_real [OF r ne, of g st v] wf by simp
  next
    case False
    with assms have "pt \<noteq> ''INDUSTRY_24_7'' \<or> elia_response w 14 = Inr []" by auto
    from generate_profile_synthetic [OF this, of g st v]
    show ?thesis
      using wf by (simp add: length_normalize_synthetic length_synthetic_shape)
  qed
next
  assume win: "1678 \<le> y \<and> y \<le> 2261"
  let ?g = "\<lparr>year = y, dates = year_hours y, n_hours = length (year_hours y)\<rparr>"
  have built: "LoadCurveGenerator_init reader y = Inr ?g"
    using win by (simp add: init_in_window)
  have len: "length (year_hours y) = (if is_leap y then 8784 else 8760)"
    by (rule length_year_hours)
  have ne: "year_hours y \<noteq> []" using len by (auto split: if_splits)
  have whole: "Hours (hours_of t) = t" for t
    by (cases t) simp
  have first: "hd (year_hours y) = year_start y"
  proof -
    have "0 < length (year_hours y)" using ne by simp
    then have "year_hours y ! 0 = Hours (hours_of (year_start y) + int 0)"
      by (rule nth_date_range)
    then show ?thesis using ne by (simp add: hd_conv_nth whole)
  qed
  have final: "last (year_hours y) = year_stop y"
  proof -
    let ?n = "length (year_hours y)"
    have "?n - 1 < ?n" using ne by simp
    then have "year_hours y ! (?n - 1) = Hours (hours_of (year_start y) + int (?n - 1))"
      by (rule nth_date_range)
    moreover have "hours_of (year_start y) + int (?n - 1) = hours_of (year_stop y)"
      by (simp add: len hours_of_jan1 hours_of_dec31)
    ultimately show ?thesis using ne by (simp add: last_conv_nth whole)
  qed
  have step: "\<forall>i < length (year_hours y). hours_of (year_hours y ! i) = hours_of (hd (year_hours y)) + int i"
    by (simp add: nth_date_range first)
  show "\<exists>g'. LoadCurveGenerator_init reader y = Inr g'
               \<and> length (dates g') = (if is_leap y then 8784 else 8760)
               \<and> hd (dates g') = timestamp_of y 1 1 0
               \<and> last (dates g') = timestamp_of y 12 31 23
               \<and> (\<forall>i < length (dates g'). hours_of (dates g' ! i) = hours_of (hd (dates g')) + int i)"
    unfolding year_start_def [symmetric] year_stop_def [symmetric]
    using built len first final step by (intro exI [of _ ?g]) simp
qed

theorem series_spans_calendar_witness:
  "(\<exists>s. fst (generate_profile generator_2024 sample_settings ''INDUSTRY_24_7'' 1000
               real_data_world) = Inr s
      \<and> length (series_values s) = length (dates generator_2024)
      \<and> series_index s = dates generator_2024)
   \<and> (\<exists>g'. LoadCurveGenerator_init no_reader 2024 = Inr g' \<and> length (dates g') = 8784)"
proof -
  have r: "''INDUSTRY_24_7'' \<noteq> ''INDUSTRY_24_7'' \<or> elia_response real_data_world 14 = Inr [3, 1, 2]"
    by (simp add: real_data_world_def three_values_def)
  have b: "LoadCurveGenerator_init no_reader 2024 = Inr generator_2024" by (rule init_2024)
  from series_spans_calendar [OF r, of no_reader 2024 generator_2024 sample_settings 1000] b leap_2024
  show ?thesis by auto
qed

text \<open>
  The claim as worded fails for a two-digit year. For year 26 the bounds are the strings
  \<open>26-01-01\<close> and \<open>26-12-31 23:00\<close>; read day first they are 26 January 2001 and 26 December
  2031, the generator is built, 26 is not a leap year, and its calendar and the series
  returned on it have 271008 entries instead of 8760.
\<close>

theorem two_digit_year_calendar:
  "LoadCurveGenerator_init day_first_reader 26 = Inr generator_26
   \<and> \<not> is_leap 26
   \<and> length (dates generator_26) = 271008
   \<and> fst (generate_profile generator_26 sample_settings ''SOLAR_PPA'' 5000 sample_world) =
       Inr \<lparr>series_values =
              normalize_synthetic (solar_shape generator_26 (replicate 271008 0)) 5000,
            series_index = dates generator_26, series_name = ''Synthetic Load''\<rparr>
   \<and> length (normalize_synthetic (solar_shape generator_26 (replicate 271008 0)) 5000) = 271008"
proof -
  have "fst (generate_profile generator_26 sample_settings ''SOLAR_PPA'' 5000 sample_world) =
       Inr \<lparr>series_values =
              normalize_synthetic (solar_shape generator_26 (replicate 271008 0)) 5000,
            series_index = dates generator_26, series_name = ''Synthetic Load''\<rparr>"
    by (simp add: solar_profile generator_26_calendar)
  moreover have
    "length (normalize_synthetic (solar_shape generator_26 (replicate 271008 0)) 5000) = 271008"
    by (simp add: length_normalize_synthetic length_solar_shape)
  ultimately show ?thesis
    using init_26 not_leap_26 generator_26_calendar(2) by simp
qed

section \<open>C3: the real-data path\<close>

text \<open>
  C3. When the archetype is INDUSTRY_24_7 and the retriever answers with a non-empty pattern,
  generate_profile returns at once under the real-data label: the values are the pattern
  repeated \<open>ceil(n_hours / len(pattern))\<close> times and cut to the calendar length, so that the
  i-th value of the tiled curve is \<open>pattern[i mod len(pattern)]\<close>, rescaled by
  \<open>volume / total\<close> (all zeros when the total is zero). No random draw is consumed and the
  console shows the two lines of the real-data branch only, so no synthetic shaping has run.
\<close>

theorem real_data_short_circuit:
  assumes "elia_response w 14 = Inr pattern" and "pattern \<noteq> []"
  shows "fst (generate_profile self st ''INDUSTRY_24_7'' v w) =
           Inr \<lparr>series_values =
                  (if sum_list (tile_to_calendar_spec (n_hours self) pattern) = 0
                   then replicate (n_hours self) 0
                   else map (\<lambda>x. x / sum_list (tile_to_calendar_spec (n_hours self) pattern) * v)
                          (tile_to_calendar_spec (n_hours self) pattern)),
                series_index = dates self, series_name = ''Real Load (MWh)''\<rparr>
         \<and> length (tile_to_calendar_spec (n_hours self) pattern) = n_hours self
         \<and> (\<forall>i < n_hours self.
               tile_to_calendar_spec (n_hours self) pattern ! i = pattern ! (i mod length pattern))
         \<and> rng_pos (snd (generate_profile self st ''INDUSTRY_24_7'' v w)) = rng_pos w
         \<and> stdout (snd (generate_profile self st ''INDUSTRY_24_7'' v w)) =
             stdout w @ [''Attempting to retrieve real Elia load profile...'',
                         ''Load profile generated using real Elia data.'']"
  using assms(2)
  by (simp add: generate_profile_real [OF assms] normalize_real_def Let_def
      tile_to_calendar_refines length_tile_to_calendar_spec nth_tile_to_calendar_spec
      print_def fetch_real_load_curve_def)

theorem real_data_short_circuit_witness:
  "fst (generate_profile generator_2026 sample_settings ''INDUSTRY_24_7'' 1000
          real_data_world) =
     Inr \<lparr>series_values =
            (if sum_list (tile_to_calendar_spec (n_hours generator_2026) [3, 1, 2]) = 0
             then replicate (n_hours generator_2026) 0
             else map (\<lambda>x. x / sum_list (tile_to_calendar_spec (n_hours generator_2026) [3, 1, 2]) * 1000)
                    (tile_to_calendar_spec (n_hours generator_2026) [3, 1, 2])),
          series_index = dates generator_2026, series_name = ''Real Load (MWh)''\<rparr>
   \<and> tile_to_calendar_spec (n_hours generator_2026) [3, 1, 2] ! 4 = 1"
proof -
  have r: "elia_response real_data_world 14 = Inr [3, 1, 2]"
    by (simp add: real_data_world_def three_values_def)
  have ne: "[3, 1, 2 :: real] \<noteq> []" by simp
  have n: "(4::nat) < n_hours generator_2026"
    by (simp add: generator_2026_calendar)
  from real_data_short_circuit [OF r ne, of generator_2026 sample_settings 1000] n
  show ?thesis by simp
qed

section \<open>C4: the solar shape\<close>

text \<open>
  C4. For SOLAR_PPA with a positive annual volume, on any generator the constructor builds,
  the curve before normalization holds \<open>sin((hour - 6) * pi / 14)\<close> clamped to be
  non-negative at every hour of the day from 6 to 20 and 0 at every other hour; the returned
  value of an hour is that value divided by the curve's total and multiplied by the volume
  (the value itself should the total not be positive), so that it is non-negative at every
  hour and exactly zero at every hour whose hour of the day is below 6 or above 20. For a
  year from 1678 to 2261 the total is strictly positive.
\<close>

theorem solar_profile_shape:
  fixes reader y g st v w i
  defines "c \<equiv> fst (synthetic_shape g st ''SOLAR_PPA''
                     (print ''Using synthetic load generator (fallback).'' w))"
  defines "h \<equiv> hour (dates g ! i)"
  assumes "LoadCurveGenerator_init reader y = Inr g" and "0 < v" and "i < length (dates g)"
  shows "\<exists>s. fst (generate_profile g st ''SOLAR_PPA'' v w) = Inr s
           \<and> series_values s ! i = (if 0 < sum_list c then c ! i / sum_list c * v else c ! i)
           \<and> c ! i = (if 6 \<le> h \<and> h \<le> 20 then max (sin ((real h - 6) * pi / 14)) 0 else 0)
           \<and> 0 \<le> series_values s ! i
           \<and> (h < 6 \<or> 20 < h \<longrightarrow> series_values s ! i = 0)
           \<and> (1678 \<le> y \<and> y \<le> 2261 \<longrightarrow> 0 < sum_list c)"
proof -
  have wf: "length (dates g) = n_hours g"
    using init_well_formed [OF assms(3)] by simp
  have c: "c = solar_shape g (replicate (n_hours g) 0)"
    by (simp add: c_def synthetic_shape_def)
  have curve: "c = map (\<lambda>t. max (if is_daylight_hour t then sin ((real (hour t) - 6) * pi / 14)
                                   else 0) 0) (dates g)"
    unfolding c by (rule solar_shape_zeros [OF wf])
  have ci: "c ! i = (if 6 \<le> h \<and> h \<le> 20 then max (sin ((real h - 6) * pi / 14)) 0 else 0)"
    using assms(5) by (simp add: curve h_def is_daylight_hour_def)
  have len: "i < length c" using assms(5) by (simp add: curve)
  have nonneg: "0 \<le> c ! i" by (simp add: ci)
  have total: "0 \<le> sum_list c" unfolding c by (rule solar_curve_nonneg_sum)
  have vi: "normalize_synthetic c v ! i = (if 0 < sum_list c then c ! i / sum_list c * v else c ! i)"
    using len by (simp add: normalize_synthetic_def)
  have a: "0 \<le> normalize_synthetic c v ! i"
    using nonneg total assms(4) by (simp add: vi)
  have b: "h < 6 \<or> 20 < h \<longrightarrow> normalize_synthetic c v ! i = 0"
    by (auto simp: vi ci)
  have d: "1678 \<le> y \<and> y \<le> 2261 \<longrightarrow> 0 < sum_list c"
  proof
    assume win: "1678 \<le> y \<and> y \<le> 2261"
    then have "LoadCurveGenerator_init reader y =
        Inr \<lparr>year = y, dates = year_hours y, n_hours = length (year_hours y)\<rparr>"
      by (simp add: init_in_window)
    with assms(3) have dg: "dates g = year_hours y" by auto
    have seven: "7 < length (year_hours y)" by (simp add: length_year_hours)
    then have "hour (dates g ! 7) = 7" by (simp add: dg hour_year_hours)
    with seven show "0 < sum_list c"
      unfolding c by (intro solar_total_pos [OF wf, of 7]) (simp_all add: dg)
  qed
  have "fst (generate_profile g st ''SOLAR_PPA'' v w) =
      Inr \<lparr>series_values = normalize_synthetic c v, series_index = dates g,
           series_name = ''Synthetic Load''\<rparr>"
    by (simp add: solar_profile c)
  with vi ci a b d show ?thesis by simp
qed

theorem solar_profile_shape_witness:
  "(\<exists>s. fst (generate_profile generator_2026 sample_settings ''SOLAR_PPA'' 5000 sample_world) =
          Inr s
      \<and> series_values s ! 3 = 0
      \<and> series_values s ! 13 =
          max (sin ((real 13 - 6) * pi / 14)) 0
            / sum_list (fst (synthetic_shape generator_2026 sample_settings ''SOLAR_PPA''
                (print ''Using synthetic load generator (fallback).'' sample_world))) * 5000)
   \<and> 0 < sum_list (fst (synthetic_shape generator_2026 sample_settings ''SOLAR_PPA''
                (print ''Using synthetic load generator (fallback).'' sample_world)))"
proof -
  have v: "(0::real) < 5000" by simp
  have i3: "3 < length (dates generator_2026)" and i13: "13 < length (dates generator_2026)"
    by (simp_all add: generator_2026_calendar)
  have h3: "hour (dates generator_2026 ! 3) = 3" and h13: "hour (dates generator_2026 ! 13) = 13"
    by (simp_all add: hour_2026)
  have win: "(1678::int) \<le> 2026 \<and> (2026::int) \<le> 2261" by simp
  from solar_profile_shape [OF init_2026 v i3, where st = sample_settings and w = sample_world] win
  have night: "\<exists>s. fst (generate_profile generator_2026 sample_settings ''SOLAR_PPA'' 5000
                 sample_world) = Inr s \<and> series_values s ! 3 = 0"
    and pos: "0 < sum_list (fst (synthetic_shape generator_2026 sample_settings ''SOLAR_PPA''
                (print ''Using synthetic load generator (fallback).'' sample_world)))"
    by (auto simp: h3)
  from solar_profile_shape [OF init_2026 v i13, where st = sample_settings and w = sample_world] pos
  have day: "\<exists>s. fst (generate_profile generator_2026 sample_settings ''SOLAR_PPA'' 5000
                 sample_world) = Inr s
      \<and> series_values s ! 13 =
          max (sin ((real 13 - 6) * pi / 14)) 0
            / sum_list (fst (synthetic_shape generator_2026 sample_settings ''SOLAR_PPA''
                (print ''Using synthetic load generator (fallback).'' sample_world))) * 5000"
    by (auto simp: h13)
  from night day pos show ?thesis by auto
qed

section \<open>C5: the office shape\<close>

text \<open>
  C5. For OFFICE_BUILDING, on any generator the constructor builds, an hour is a working
  hour exactly when its hour of the day lies in 8..18 and its weekday index is below 5. Before normalization the k-th working hour of the
  calendar holds the k-th draw of \<open>np.random.normal(1.0, 0.1, count)\<close>, that is
  \<open>1.0 + 0.1 * z\<close> for a standard normal draw z of its own (two working hours never share a
  draw), and every other hour holds 0.1; in the returned series any two non-working hours
  carry the same value.
\<close>

theorem office_shape_values:
  fixes reader y g st v w i j
  defines "c \<equiv> fst (synthetic_shape g st ''OFFICE_BUILDING''
                     (print ''Using synthetic load generator (fallback).'' w))"
  defines "working \<equiv> \<lambda>k. 8 \<le> hour (dates g ! k) \<and> hour (dates g ! k) \<le> 18
                           \<and> dayofweek (dates g ! k) < 5"
  defines "rank \<equiv> \<lambda>k. length (filter (\<lambda>t. 8 \<le> hour t \<and> hour t \<le> 18 \<and> dayofweek t < 5)
                                (take k (dates g)))"
  assumes built: "LoadCurveGenerator_init reader y = Inr g"
    and ilen: "i < length (dates g)" and jlen: "j < length (dates g)"
  shows "(working i \<longrightarrow> c ! i = 1.0 + 0.1 * rng_draws w (rng_pos w + rank i))
       \<and> (\<not> working i \<longrightarrow> c ! i = 0.1)
       \<and> (working i \<and> working j \<and> i < j \<longrightarrow> rank i < rank j)
       \<and> (\<exists>s. fst (generate_profile g st ''OFFICE_BUILDING'' v w) = Inr s
              \<and> series_values s = normalize_synthetic c v
              \<and> (\<not> working i \<and> \<not> working j \<longrightarrow> series_values s ! i = series_values s ! j))"
proof -
  have wf: "length (dates g) = n_hours g"
    using init_well_formed [OF built] by simp
  have c: "c = fst (office_shape g (replicate (n_hours g) 0)
                      (print ''Using synthetic load generator (fallback).'' w))"
    by (simp add: c_def synthetic_shape_def)
  have lc: "length c = n_hours g"
    unfolding c_def by (rule length_synthetic_shape [OF wf])
  have nth: "c ! k = (if working k then 1.0 + 0.1 * rng_draws w (rng_pos w + rank k) else 0.1)"
    if "k < n_hours g" for k
    unfolding c working_def rank_def
    using nth_office_shape [OF wf that, of "print ''Using synthetic load generator (fallback).'' w"]
    by (simp add: is_working_hour_eq print_def)
  have i: "i < n_hours g" and j: "j < n_hours g" using ilen jlen wf by simp_all
  have a: "working i \<longrightarrow> c ! i = 1.0 + 0.1 * rng_draws w (rng_pos w + rank i)"
    by (simp add: nth [OF i])
  have b: "\<not> working i \<longrightarrow> c ! i = 0.1"
    by (simp add: nth [OF i])
  have d: "working i \<and> working j \<and> i < j \<longrightarrow> rank i < rank j"
  proof
    assume h: "working i \<and> working j \<and> i < j"
    let ?sel = "map is_working_hour (dates g)"
    have "mask_sum (take i ?sel) < mask_sum (take j ?sel)"
      using h i j wf
      by (intro mask_sum_take_mono) (simp_all add: working_def is_working_hour_def)
    then show "rank i < rank j"
      by (simp add: rank_def take_map mask_sum_map is_working_hour_eq)
  qed
  have e: "''OFFICE_BUILDING'' \<noteq> ''INDUSTRY_24_7'' \<or> elia_response w 14 = Inr []" by simp
  have f: "fst (generate_profile g st ''OFFICE_BUILDING'' v w) =
      Inr \<lparr>series_values = normalize_synthetic c v, series_index = dates g,
           series_name = ''Synthetic Load''\<rparr>"
    using generate_profile_synthetic [OF e, of g st v] by (simp add: c_def)
  have "normalize_synthetic c v ! i = normalize_synthetic c v ! j"
    if "\<not> working i \<and> \<not> working j"
    using that i j by (intro normalize_synthetic_nth_eq) (simp_all add: lc nth)
  with a b d f show ?thesis by simp
qed

theorem office_shape_values_witness:
  "fst (synthetic_shape generator_2026 sample_settings ''OFFICE_BUILDING''
          (print ''Using synthetic load generator (fallback).'' sample_world)) ! 9 = 1
   \<and> fst (synthetic_shape generator_2026 sample_settings ''OFFICE_BUILDING''
          (print ''Using synthetic load generator (fallback).'' sample_world)) ! 3 = 0.1
   \<and> (\<exists>s. fst (generate_profile generator_2026 sample_settings
                ''OFFICE_BUILDING'' 15000 sample_world) = Inr s
          \<and> series_values s ! 3 = series_values s ! 60)"
proof -
  have len: "3 < length (dates generator_2026)"
    "9 < length (dates generator_2026)"
    "60 < length (dates generator_2026)"
    by (simp_all add: generator_2026_calendar)
  have h: "hour (dates generator_2026 ! 3) = 3"
    "hour (dates generator_2026 ! 9) = 9"
    "hour (dates generator_2026 ! 60) = 12"
    by (simp_all add: hour_2026)
  have d: "dayofweek (dates generator_2026 ! 9) = 3"
    "dayofweek (dates generator_2026 ! 60) = 5"
    by (simp_all add: dayofweek_2026)
  have z: "rng_draws sample_world k = 0" for k
    by (simp add: sample_world_def zero_draws_def)
  from office_shape_values [OF init_2026 len(2) len(1),
      where st = sample_settings and w = sample_world and v = 15000]
  have nine: "fst (synthetic_shape generator_2026 sample_settings
      ''OFFICE_BUILDING'' (print ''Using synthetic load generator (fallback).'' sample_world)) ! 9 = 1"
    by (simp add: h d z)
  from office_shape_values [OF init_2026 len(1) len(3),
      where st = sample_settings and w = sample_world and v = 15000]
  have rest: "fst (synthetic_shape generator_2026 sample_settings
      ''OFFICE_BUILDING'' (print ''Using synthetic load generator (fallback).'' sample_world)) ! 3 = 0.1
    \<and> (\<exists>s. fst (generate_profile generator_2026 sample_settings
                ''OFFICE_BUILDING'' 15000 sample_world) = Inr s
          \<and> series_values s ! 3 = series_values s ! 60)"
    by (auto simp: h d)
  from nine rest show ?thesis by blast
qed

section \<open>C6: unrecognised archetypes\<close>

text \<open>
  C6. For every archetype string other than INDUSTRY_24_7, OFFICE_BUILDING and SOLAR_PPA,
  on any generator the constructor builds, generate_profile raises nothing: it returns the
  series of zeros of calendar length under the synthetic label, having printed one line and
  touched neither the retriever nor the random source. The shaping leaves the curve at its
  zero initial state, whose sum is zero, so the normalization takes its degenerate branch.
\<close>

theorem unknown_archetype_zero_series:
  assumes "pt \<noteq> ''INDUSTRY_24_7''" and "pt \<noteq> ''OFFICE_BUILDING''" and "pt \<noteq> ''SOLAR_PPA''"
    and "LoadCurveGenerator_init reader y = Inr g"
  shows "generate_profile g st pt v w =
           (Inr \<lparr>series_values = replicate (length (dates g)) 0,
                 series_index = dates g,
                 series_name = ''Synthetic Load''\<rparr>,
            print ''Using synthetic load generator (fallback).'' w)
         \<and> fst (synthetic_shape g st pt
              (print ''Using synthetic load generator (fallback).'' w)) =
             replicate (length (dates g)) 0
         \<and> sum_list (fst (synthetic_shape g st pt
              (print ''Using synthetic load generator (fallback).'' w))) = 0"
  using assms(1-3) init_well_formed [OF assms(4)]
  by (simp add: generate_profile_def synthetic_profile_def synthetic_shape_unknown
      normalize_synthetic_zeros sum_list_replicate_zero)

theorem unknown_archetype_zero_series_witness:
  "generate_profile generator_2026 sample_settings ''WAREHOUSE'' 1000 sample_world =
     (Inr \<lparr>series_values = replicate (length (dates generator_2026)) 0,
           series_index = dates generator_2026,
           series_name = ''Synthetic Load''\<rparr>,
      print ''Using synthetic load generator (fallback).'' sample_world)"
  using unknown_archetype_zero_series
    [OF _ _ _ init_2026, of "''WAREHOUSE''" sample_settings 1000 sample_world]
  by simp

section \<open>C7: the real-data attempt and its fallback\<close>




section \<open>C8: the synthetic industrial shape\<close>

text \<open>
  C8. On the synthetic INDUSTRY_24_7 path (the retriever answered with nothing), on any
  generator the constructor builds, the value
  of hour i before normalization is the i-th draw of \<open>np.random.normal(1.0, 0.05, n_hours)\<close>,
  that is \<open>1.0 + 0.05 * z\<close> for the i-th standard normal draw z taken from the random source,
  multiplied by 0.85 when the weekday of the hour is in the configured weekend set. Nothing
  clamps it: a draw below -20 leaves a negative value in the curve.
\<close>

theorem industry_synthetic_values:
  fixes reader y g st v w i
  defines "c \<equiv> fst (synthetic_shape g st ''INDUSTRY_24_7''
            (print ''Using synthetic load generator (fallback).''
               (snd (fetch_real_load_curve 14
                  (print ''Attempting to retrieve real Elia load profile...'' w)))))"
  assumes built: "LoadCurveGenerator_init reader y = Inr g"
    and empty: "elia_response w 14 = Inr []" and ilen: "i < length (dates g)"
  shows "fst (generate_profile g st ''INDUSTRY_24_7'' v w) =
           Inr \<lparr>series_values = normalize_synthetic c v, series_index = dates g,
                series_name = ''Synthetic Load''\<rparr>
         \<and> c ! i = (1.0 + 0.05 * rng_draws w (rng_pos w + i))
                    * (if int (dayofweek (dates g ! i)) \<in> set (WEEKEND_DAYS st) then 0.85 else 1)
         \<and> (rng_draws w (rng_pos w + i) < - 20 \<longrightarrow> c ! i < 0)"
proof -
  have wf: "length (dates g) = n_hours g"
    using init_well_formed [OF built] by simp
  have e: "''INDUSTRY_24_7'' \<noteq> ''INDUSTRY_24_7'' \<or> elia_response w 14 = Inr []"
    using empty by simp
  have a: "fst (generate_profile g st ''INDUSTRY_24_7'' v w) =
           Inr \<lparr>series_values = normalize_synthetic c v, series_index = dates g,
                series_name = ''Synthetic Load''\<rparr>"
    using generate_profile_synthetic [OF e, of g st v] by (simp add: c_def)
  have b: "c ! i = (1.0 + 0.05 * rng_draws w (rng_pos w + i))
                    * (if int (dayofweek (dates g ! i)) \<in> set (WEEKEND_DAYS st) then 0.85 else 1)"
    using ilen wf
    by (simp add: c_def synthetic_shape_def nth_industry_shape fallback_world_rng isin_def)
  have "c ! i < 0" if "rng_draws w (rng_pos w + i) < - 20"
  proof -
    from that have "1.0 + 0.05 * rng_draws w (rng_pos w + i) < 0" by simp
    then show ?thesis
      unfolding b by (simp add: mult_neg_pos)
  qed
  with a b show ?thesis by simp
qed

theorem industry_synthetic_values_witness:
  "fst (synthetic_shape generator_2026 sample_settings ''INDUSTRY_24_7''
            (print ''Using synthetic load generator (fallback).''
               (snd (fetch_real_load_curve 14
                  (print ''Attempting to retrieve real Elia load profile...'' low_world))))) ! 50
     = (1.0 + 0.05 * (- 30)) * 0.85
   \<and> fst (synthetic_shape generator_2026 sample_settings ''INDUSTRY_24_7''
            (print ''Using synthetic load generator (fallback).''
               (snd (fetch_real_load_curve 14
                  (print ''Attempting to retrieve real Elia load profile...'' low_world))))) ! 50
     < 0"
proof -
  have r: "elia_response low_world 14 = Inr []"
    by (simp add: low_world_def no_data_def)
  have i: "50 < length (dates generator_2026)"
    by (simp add: generator_2026_calendar)
  have d: "dayofweek (dates generator_2026 ! 50) = 5"
    by (simp add: dayofweek_2026)
  have z: "rng_draws low_world (rng_pos low_world + 50) = - 30"
    by (simp add: low_world_def low_draws_def)
  from industry_synthetic_values [OF init_2026 r i, where st = sample_settings and v = 1000]
  show ?thesis by (simp add: d z sample_settings_def)
qed

section \<open>C9: the hourly tab of the export\<close>




section \<open>C10: the solar path reads nothing from the world\<close>

text \<open>
  C10. For SOLAR_PPA the returned series depends on the year and the volume only: two calls
  on generators built for the same year, with the same volume, return the same series
  whatever the retriever, the random source, the configuration and the console hold, and the
  call consumes no random draw and makes no request to the retriever.
\<close>

theorem solar_deterministic:
  assumes "LoadCurveGenerator_init reader y = Inr g1"
    and "LoadCurveGenerator_init reader y = Inr g2"
  shows "fst (generate_profile g1 st1 ''SOLAR_PPA'' v w1) =
           fst (generate_profile g2 st2 ''SOLAR_PPA'' v w2)
       \<and> rng_pos (snd (generate_profile g1 st1 ''SOLAR_PPA'' v w1)) = rng_pos w1
       \<and> elia_calls (snd (generate_profile g1 st1 ''SOLAR_PPA'' v w1)) = elia_calls w1"
proof -
  from assms have "g1 = g2" by simp
  then show ?thesis by (simp add: solar_profile print_def)
qed

theorem solar_deterministic_witness:
  "fst (generate_profile generator_2026 sample_settings ''SOLAR_PPA'' 5000 sample_world) =
     fst (generate_profile generator_2026 sample_settings ''SOLAR_PPA'' 5000 low_world)"
  using solar_deterministic
    [OF init_2026 init_2026, where ?st1.0 = sample_settings and ?st2.0 = sample_settings
      and ?w1.0 = sample_world and ?w2.0 = low_world and v = 5000]
  by simp

end
